theory Spec2Isabelle
  imports Complex_Main "HOL-Library.Multiset"
begin

section \<open>Angle-based outlier detection: the model of \<open>pyod/models/abod.py\<close>\<close>

text \<open>
  Points are rows of reals, a matrix is a list of rows. Floating-point numbers are
  modelled by exact reals; the one non-number a score can be is \<open>NaN\<close>, the value
  \<open>np.var\<close> gives for an empty list. Rounding is not modelled.

  The vector operations below are the numpy operations on two rows of the same length,
  which is what \<open>check_array\<close> and a matching feature dimension give.
\<close>

type_synonym point = "real list"
type_synonym matrix = "point list"

datatype npfloat = NaN | Val real

datatype error =
    ValueError string
  | ParameterRangeError
  | NotFittedError "string list"
  | IndexError
  | AttributeError

subsection \<open>numpy operations\<close>

definition array_equal :: "point \<Rightarrow> point \<Rightarrow> bool" where
  "array_equal a b = (a = b)"

definition vsub :: "point \<Rightarrow> point \<Rightarrow> point" where
  "vsub a b = map2 (\<lambda>x y. x - y) a b"

definition dot :: "point \<Rightarrow> point \<Rightarrow> real" where
  "dot a b = sum_list (map2 (\<lambda>x y. x * y) a b)"

definition norm2 :: "point \<Rightarrow> real" where
  "norm2 a = sqrt (sum_list (map (\<lambda>x. \<bar>x\<bar> ^ 2) a))"

definition np_mean :: "real list \<Rightarrow> real" where
  "np_mean xs = sum_list xs / real (length xs)"

text \<open>\<open>np.var\<close>: the mean of the squared deviations from the mean; NaN on no samples.\<close>

definition np_var :: "real list \<Rightarrow> npfloat" where
  "np_var xs =
     (if xs = [] then NaN
      else Val (sum_list (map (\<lambda>x. \<bar>x - np_mean xs\<bar> ^ 2) xs) / real (length xs)))"

fun np_times :: "npfloat \<Rightarrow> real \<Rightarrow> npfloat" where
  "np_times NaN c = NaN"
| "np_times (Val x) c = Val (x * c)"

subsection \<open>\<open>itertools.combinations(X_ind, 2)\<close>\<close>

fun combinations2 :: "'a list \<Rightarrow> ('a \<times> 'a) list" where
  "combinations2 [] = []"
| "combinations2 (x # xs) = map (Pair x) xs @ combinations2 xs"

subsection \<open>\<open>_calculate_wocs\<close>\<close>

definition wcos_value :: "point \<Rightarrow> point \<Rightarrow> point \<Rightarrow> real" where
  "wcos_value curr_pt a b =
     (let a_curr = vsub a curr_pt; b_curr = vsub b curr_pt
      in dot a_curr b_curr / (norm2 a_curr) ^ 2 / (norm2 b_curr) ^ 2)"

text \<open>
  The loop over the pairs, with \<open>wcos_list\<close> as the accumulator. Reading a row out of
  range raises \<open>IndexError\<close>; both rows are read before the coincidence test.
\<close>

fun wocs_loop :: "point \<Rightarrow> matrix \<Rightarrow> (nat \<times> nat) list \<Rightarrow> real list \<Rightarrow> error + real list" where
  "wocs_loop curr_pt X [] wcos_list = Inr wcos_list"
| "wocs_loop curr_pt X ((a_ind, b_ind) # rest) wcos_list =
     (if \<not> a_ind < length X then Inl IndexError
      else if \<not> b_ind < length X then Inl IndexError
      else
        let a = X ! a_ind; b = X ! b_ind in
        if array_equal a curr_pt \<or> array_equal b curr_pt
        then wocs_loop curr_pt X rest wcos_list
        else wocs_loop curr_pt X rest (wcos_list @ [wcos_value curr_pt a b]))"

definition calculate_wocs :: "point \<Rightarrow> matrix \<Rightarrow> nat list \<Rightarrow> error + npfloat" where
  "calculate_wocs curr_pt X X_ind =
     (case wocs_loop curr_pt X (combinations2 X_ind) [] of
        Inl e \<Rightarrow> Inl e
      | Inr wcos_list \<Rightarrow> Inr (np_var wcos_list))"

subsection \<open>The detector object and its collaborators\<close>

text \<open>
  An attribute that has not been assigned yet is \<open>None\<close>. The fitted attributes
  \<open>X_train_\<close>, \<open>n_train_\<close>, \<open>decision_scores_\<close>, \<open>threshold_\<close>, \<open>labels_\<close>, \<open>tree_\<close> are the
  fields of those names without the final underscore; \<open>tree\<close> holds the matrix the
  \<open>KDTree\<close> was built over.
\<close>

record abod =
  contamination :: real
  n_neighbors :: int
  "method" :: string
  classes :: "nat option"
  X_train :: "matrix option"
  n_train :: "nat option"
  decision_scores :: "npfloat list option"
  threshold :: "npfloat option"
  labels :: "nat list option"
  tree :: "matrix option"

text \<open>
  A call that raises leaves the object as it was at the raise, so both outcomes carry
  the state.
\<close>

datatype 'a res = Ok 'a | Err error 'a

text \<open>
  The neighbor library (scikit-learn) and the threshold and label derivation of the base
  class are collaborators outside this module; they are parameters of the model.
  \<open>kneighbors X k\<close> is \<open>NearestNeighbors(n_neighbors=k).fit(X).kneighbors(n_neighbors=k,
  return_distance=False)\<close>, \<open>tree_query T Q k\<close> is the index part of
  \<open>KDTree(T).query(Q, k=k)\<close>, and \<open>process_scores c scores\<close> gives \<open>threshold_\<close> and
  \<open>labels_\<close>.
\<close>

record collaborators =
  kneighbors :: "matrix \<Rightarrow> int \<Rightarrow> error + nat list list"
  tree_query :: "matrix \<Rightarrow> matrix \<Rightarrow> int \<Rightarrow> error + nat list list"
  process_scores :: "real \<Rightarrow> npfloat list \<Rightarrow> npfloat \<times> nat list"

text \<open>
  \<open>check_array\<close> of scikit-learn: a non-empty matrix with at least one feature whose
  rows have one length; anything else is a \<open>ValueError\<close>.
\<close>

definition check_array :: "matrix \<Rightarrow> error + matrix" where
  "check_array X =
     (if X = [] \<or> hd X = [] \<or> list_ex (\<lambda>r. length r \<noteq> length (hd X)) X
      then Inl (ValueError ''check_array'')
      else Inr X)"

text \<open>
  Modelled from the spec: \<open>check_parameter\<close> of \<open>pyod/utils/utility.py\<close> is not among the
  sources. Section 4.3: "Precondition (fast mode only): 1 \<le> k \<le> N; violation fails with
  a parameter-range error".
\<close>

definition check_parameter :: "int \<Rightarrow> int \<Rightarrow> int \<Rightarrow> error + unit" where
  "check_parameter param low high =
     (if low \<le> param \<and> param \<le> high then Inr () else Inl ParameterRangeError)"

text \<open>
  Modelled from the spec: \<open>_set_n_classes\<close> of \<open>pyod/models/base.py\<close> is not among the
  sources. Section 6: it establishes the class count at fit time (two classes when no
  labels are given).
\<close>

definition set_n_classes :: "abod \<Rightarrow> abod" where
  "set_n_classes s = s\<lparr>classes := Some 2\<rparr>"

text \<open>
  Modelled from the spec: \<open>_process_decision_scores\<close> of \<open>pyod/models/base.py\<close> is not
  among the sources. Section 6: it consumes the stored sign-flipped scores and produces
  a threshold and binary labels via the contamination fraction, exposed as \<open>threshold_\<close>
  and \<open>labels_\<close>. How the two are computed is left to the parameter \<open>process_scores\<close>.
\<close>

definition process_decision_scores :: "collaborators \<Rightarrow> abod \<Rightarrow> abod" where
  "process_decision_scores env s =
     (case decision_scores s of
        None \<Rightarrow> s
      | Some scores \<Rightarrow>
          (case process_scores env (contamination s) scores of
             (t, l) \<Rightarrow> s\<lparr>threshold := Some t, labels := Some l\<rparr>))"

text \<open>\<open>hasattr\<close> on the fitted attributes.\<close>

definition has_attr :: "abod \<Rightarrow> string \<Rightarrow> bool" where
  "has_attr s name =
     (if name = ''X_train_'' then X_train s \<noteq> None
      else if name = ''n_train_'' then n_train s \<noteq> None
      else if name = ''decision_scores_'' then decision_scores s \<noteq> None
      else if name = ''threshold_'' then threshold s \<noteq> None
      else if name = ''labels_'' then labels s \<noteq> None
      else if name = ''tree_'' then tree s \<noteq> None
      else False)"

text \<open>
  Modelled from the spec: \<open>check_is_fitted\<close> is scikit-learn's and not among the sources.
  Section 7: "scoring invoked before a successful fit fails, naming the missing fitted
  attributes".
\<close>

definition check_is_fitted :: "abod \<Rightarrow> string list \<Rightarrow> error + unit" where
  "check_is_fitted s attributes =
     (let missing = filter (\<lambda>a. \<not> has_attr s a) attributes
      in if missing = [] then Inr () else Inl (NotFittedError missing))"

subsection \<open>\<open>ABOD.fit\<close>\<close>

definition fit_default_candidates :: "nat \<Rightarrow> nat \<Rightarrow> nat list" where
  "fit_default_candidates n i = remove1 i [0..<n]"

fun fit_default_loop :: "matrix \<Rightarrow> nat \<Rightarrow> nat list \<Rightarrow> npfloat list \<Rightarrow> npfloat list res" where
  "fit_default_loop X n [] scores = Ok scores"
| "fit_default_loop X n (i # rest) scores =
     (if \<not> i < length X then Err IndexError scores
      else if i \<notin> set [0..<n] then Err (ValueError ''list.remove(x): x not in list'') scores
      else
        (case calculate_wocs (X ! i) X (fit_default_candidates n i) of
           Inl e \<Rightarrow> Err e scores
         | Inr v \<Rightarrow>
             if \<not> i < length scores then Err IndexError scores
             else fit_default_loop X n rest (scores[i := v])))"

definition fit_default :: "abod \<Rightarrow> abod res" where
  "fit_default s =
     (case (X_train s, n_train s, decision_scores s) of
        (Some X, Some n, Some scores) \<Rightarrow>
          (case fit_default_loop X n [0..<n] scores of
             Ok scores' \<Rightarrow> Ok (s\<lparr>decision_scores := Some scores'\<rparr>)
           | Err e scores' \<Rightarrow> Err e (s\<lparr>decision_scores := Some scores'\<rparr>))
      | _ \<Rightarrow> Err AttributeError s)"

fun fit_fast_loop :: "matrix \<Rightarrow> nat list list \<Rightarrow> nat list \<Rightarrow> npfloat list \<Rightarrow> npfloat list res" where
  "fit_fast_loop X ind_arr [] scores = Ok scores"
| "fit_fast_loop X ind_arr (i # rest) scores =
     (if \<not> i < length X then Err IndexError scores
      else if \<not> i < length ind_arr then Err IndexError scores
      else
        (case calculate_wocs (X ! i) X (ind_arr ! i) of
           Inl e \<Rightarrow> Err e scores
         | Inr v \<Rightarrow>
             if \<not> i < length scores then Err IndexError scores
             else fit_fast_loop X ind_arr rest (scores[i := v])))"

definition fit_fast :: "collaborators \<Rightarrow> abod \<Rightarrow> abod res" where
  "fit_fast env s =
     (case (X_train s, n_train s, decision_scores s) of
        (Some X, Some n, Some scores) \<Rightarrow>
          (case check_parameter (n_neighbors s) 1 (int n) of
             Inl e \<Rightarrow> Err e s
           | Inr _ \<Rightarrow>
               let s1 = s\<lparr>tree := Some X\<rparr> in
               (case kneighbors env X (n_neighbors s) of
                  Inl e \<Rightarrow> Err e s1
                | Inr ind_arr \<Rightarrow>
                    (case fit_fast_loop X ind_arr [0..<n] scores of
                       Ok scores' \<Rightarrow> Ok (s1\<lparr>decision_scores := Some scores'\<rparr>)
                     | Err e scores' \<Rightarrow> Err e (s1\<lparr>decision_scores := Some scores'\<rparr>))))
      | _ \<Rightarrow> Err AttributeError s)"

definition flip_scores :: "abod \<Rightarrow> abod" where
  "flip_scores s =
     s\<lparr>decision_scores := map_option (map (\<lambda>v. np_times v (- 1))) (decision_scores s)\<rparr>"

definition fit :: "collaborators \<Rightarrow> matrix \<Rightarrow> abod \<Rightarrow> abod res" where
  "fit env X0 s =
     (case check_array X0 of
        Inl e \<Rightarrow> Err e s
      | Inr X \<Rightarrow>
          let s1 = set_n_classes s;
              s2 = s1\<lparr>X_train := Some X\<rparr>;
              s3 = s2\<lparr>n_train := Some (length X)\<rparr>;
              s4 = s3\<lparr>decision_scores := Some (replicate (length X) (Val 0))\<rparr>
          in
          (case (if method s4 = ''fast'' then fit_fast env s4
                 else if method s4 = ''default'' then fit_default s4
                 else Err (ValueError (method s4 @ '' is not a valid method'')) s4) of
             Err e s5 \<Rightarrow> Err e s5
           | Ok s5 \<Rightarrow> Ok (process_decision_scores env (flip_scores s5))))"

subsection \<open>\<open>ABOD.decision_function\<close>\<close>

definition score_default_candidates :: "nat \<Rightarrow> nat list" where
  "score_default_candidates n = [0..<n]"

fun score_loop :: "matrix \<Rightarrow> matrix \<Rightarrow> (nat \<Rightarrow> error + nat list) \<Rightarrow> nat list \<Rightarrow> npfloat list
    \<Rightarrow> error + npfloat list" where
  "score_loop X Xt cand [] pred_score = Inr pred_score"
| "score_loop X Xt cand (i # rest) pred_score =
     (if \<not> i < length X then Inl IndexError
      else
        (case cand i of
           Inl e \<Rightarrow> Inl e
         | Inr X_ind \<Rightarrow>
             (case calculate_wocs (X ! i) Xt X_ind of
                Inl e \<Rightarrow> Inl e
              | Inr v \<Rightarrow>
                  if \<not> i < length pred_score then Inl IndexError
                  else score_loop X Xt cand rest (pred_score[i := v]))))"

definition decision_function_default :: "abod \<Rightarrow> matrix \<Rightarrow> error + npfloat list" where
  "decision_function_default s X =
     (case (X_train s, n_train s) of
        (Some Xt, Some n) \<Rightarrow>
          score_loop X Xt (\<lambda>i. Inr (score_default_candidates n)) [0..<length X]
            (replicate (length X) (Val 0))
      | _ \<Rightarrow> Inl AttributeError)"

definition decision_function_fast :: "collaborators \<Rightarrow> abod \<Rightarrow> matrix \<Rightarrow> error + npfloat list" where
  "decision_function_fast env s X =
     (case check_is_fitted s [''tree_''] of
        Inl e \<Rightarrow> Inl e
      | Inr _ \<Rightarrow>
          (case (tree s, X_train s) of
             (Some T, Some Xt) \<Rightarrow>
               (case tree_query env T X (n_neighbors s) of
                  Inl e \<Rightarrow> Inl e
                | Inr ind_arr \<Rightarrow>
                    score_loop X Xt
                      (\<lambda>i. if i < length ind_arr then Inr (ind_arr ! i) else Inl IndexError)
                      [0..<length X] (replicate (length X) (Val 0)))
           | _ \<Rightarrow> Inl AttributeError))"

text \<open>
  \<open>decision_function\<close> assigns no attribute: the state it returns is the state it was
  given.
\<close>

definition decision_function :: "collaborators \<Rightarrow> abod \<Rightarrow> matrix \<Rightarrow> (error + npfloat list) \<times> abod" where
  "decision_function env s X0 =
     (case check_is_fitted s
             [''X_train_'', ''n_train_'', ''decision_scores_'', ''threshold_'', ''labels_''] of
        Inl e \<Rightarrow> (Inl e, s)
      | Inr _ \<Rightarrow>
          (case check_array X0 of
             Inl e \<Rightarrow> (Inl e, s)
           | Inr X \<Rightarrow>
               if method s = ''fast''
               then (map_sum id (map (\<lambda>v. np_times v (- 1))) (decision_function_fast env s X), s)
               else (map_sum id (map (\<lambda>v. np_times v (- 1))) (decision_function_default s X), s)))"

subsection \<open>\<open>ABOD.__init__\<close> and a brute-force neighbor library\<close>

definition abod_init :: "real \<Rightarrow> int \<Rightarrow> string \<Rightarrow> abod" where
  "abod_init c k m =
     \<lparr>contamination = c, n_neighbors = k, method = m, classes = None, X_train = None,
      n_train = None, decision_scores = None, threshold = None, labels = None, tree = None\<rparr>"

text \<open>
  An exact neighbor library by exhaustive search, used to run the model on concrete
  data: the \<open>k\<close> indices closest to the query in ascending distance, ties in index
  order; a query with \<open>k\<close> above the number of indexed points fails.
\<close>

definition sq_dist :: "point \<Rightarrow> point \<Rightarrow> real" where
  "sq_dist a b = sum_list (map (\<lambda>x. x ^ 2) (vsub a b))"

definition brute_query :: "matrix \<Rightarrow> point \<Rightarrow> int \<Rightarrow> nat list" where
  "brute_query T q k = take (nat k) (sort_key (\<lambda>i. sq_dist (T ! i) q) [0..<length T])"

definition brute_force :: collaborators where
  "brute_force =
     \<lparr>kneighbors = (\<lambda>X k. if k \<le> int (length X) then Inr (map (\<lambda>q. brute_query X q k) X)
                          else Inl (ValueError ''Expected n_neighbors <= n_samples'')),
      tree_query = (\<lambda>T Q k. if k \<le> int (length T) then Inr (map (\<lambda>q. brute_query T q k) Q)
                            else Inl (ValueError ''k must be less than or equal to the number of training points'')),
      process_scores = (\<lambda>c scores. (Val 0, map (\<lambda>v. case v of NaN \<Rightarrow> 0 | Val x \<Rightarrow> if 0 < x then 1 else 0) scores))\<rparr>"

subsection \<open>Auxiliary notions for the statistic\<close>

text \<open>
  What the loop of \<open>_calculate_wocs\<close> does with one pair of indices: whether it is
  skipped, and the value it appends otherwise.
\<close>

definition pair_skipped :: "point \<Rightarrow> matrix \<Rightarrow> nat \<times> nat \<Rightarrow> bool" where
  "pair_skipped p X ab = (array_equal (X ! fst ab) p \<or> array_equal (X ! snd ab) p)"

definition pair_wcos :: "point \<Rightarrow> matrix \<Rightarrow> nat \<times> nat \<Rightarrow> real" where
  "pair_wcos p X ab = wcos_value p (X ! fst ab) (X ! snd ab)"

definition collected :: "point \<Rightarrow> matrix \<Rightarrow> (nat \<times> nat) list \<Rightarrow> real list" where
  "collected p X ps = map (pair_wcos p X) (filter (\<lambda>ab. \<not> pair_skipped p X ab) ps)"

definition pairs_in_range :: "matrix \<Rightarrow> (nat \<times> nat) list \<Rightarrow> bool" where
  "pairs_in_range X ps = list_all (\<lambda>ab. fst ab < length X \<and> snd ab < length X) ps"

subsection \<open>The statistic in the words of the specification\<close>






subsection \<open>Auxiliary notions for the loops over the points\<close>

text \<open>
  The three loops over the points (\<open>_fit_default\<close>, \<open>_fit_fast\<close> and the two
  \<open>_decision_function\<close> helpers) have one shape: compute a value for index \<open>i\<close>, store it
  at position \<open>i\<close>. \<open>assign_loop\<close> is that shape, used to reason about the three at once.
\<close>

fun assign_loop :: "(nat \<Rightarrow> error + npfloat) \<Rightarrow> nat list \<Rightarrow> npfloat list \<Rightarrow> npfloat list res" where
  "assign_loop f [] scores = Ok scores"
| "assign_loop f (i # rest) scores =
     (case f i of
        Inl e \<Rightarrow> Err e scores
      | Inr v \<Rightarrow>
          if \<not> i < length scores then Err IndexError scores
          else assign_loop f rest (scores[i := v]))"

definition fit_default_step :: "matrix \<Rightarrow> nat \<Rightarrow> nat \<Rightarrow> error + npfloat" where
  "fit_default_step X n i =
     (if \<not> i < length X then Inl IndexError
      else if i \<notin> set [0..<n] then Inl (ValueError ''list.remove(x): x not in list'')
      else calculate_wocs (X ! i) X (fit_default_candidates n i))"

definition fit_fast_step :: "matrix \<Rightarrow> nat list list \<Rightarrow> nat \<Rightarrow> error + npfloat" where
  "fit_fast_step X ind_arr i =
     (if \<not> i < length X then Inl IndexError
      else if \<not> i < length ind_arr then Inl IndexError
      else calculate_wocs (X ! i) X (ind_arr ! i))"

definition score_step :: "matrix \<Rightarrow> matrix \<Rightarrow> (nat \<Rightarrow> error + nat list) \<Rightarrow> nat \<Rightarrow> error + npfloat" where
  "score_step X Xt cand i =
     (if \<not> i < length X then Inl IndexError
      else case cand i of Inl e \<Rightarrow> Inl e | Inr X_ind \<Rightarrow> calculate_wocs (X ! i) Xt X_ind)"

subsection \<open>Auxiliary notions for \<open>fit\<close>\<close>

text \<open>The object at the dispatch on \<open>method\<close> in \<open>fit\<close>, after the first four assignments.\<close>

definition fit_start :: "matrix \<Rightarrow> abod \<Rightarrow> abod" where
  "fit_start X s =
     s\<lparr>classes := Some 2, X_train := Some X, n_train := Some (length X),
       decision_scores := Some (replicate (length X) (Val 0))\<rparr>"

text \<open>The sign flip of a score array, \<open>scores * -1\<close>.\<close>

definition negate :: "npfloat list \<Rightarrow> npfloat list" where
  "negate scores = map (\<lambda>v. np_times v (- 1)) scores"

subsection \<open>Concrete data\<close>

text \<open>
  Four points on a line and the detectors that \<open>fit\<close> makes of them with the brute-force
  library, in default mode and in fast mode with three neighbors.
\<close>

definition example_X :: matrix where
  "example_X = [[0], [1], [3], [7]]"

definition fitted_default_example :: abod where
  "fitted_default_example =
     \<lparr>contamination = 1 / 10, n_neighbors = 3, method = ''default'', classes = Some 2,
      X_train = Some [[0], [1], [3], [7]], n_train = Some 4,
      decision_scores =
        Some [Val (- (8 / 567)), Val (- (37 / 648)), Val (- (43 / 2592)), Val (- (1 / 18144))],
      threshold = Some (Val 0), labels = Some [0, 0, 0, 0], tree = None\<rparr>"

definition fitted_fast_example :: abod where
  "fitted_fast_example =
     \<lparr>contamination = 1 / 10, n_neighbors = 3, method = ''fast'', classes = Some 2,
      X_train = Some [[0], [1], [3], [7]], n_train = Some 4,
      decision_scores = Some [Val 0, Val 0, Val 0, Val 0],
      threshold = Some (Val 0), labels = Some [0, 0, 0, 0], tree = Some [[0], [1], [3], [7]]\<rparr>"


section \<open>Properties of the statistic\<close>

subsection \<open>The squared norm and the weighted cosine\<close>

lemma sum_list_squares_nonneg: "0 \<le> sum_list (map (\<lambda>x::real. x ^ 2) a)"
  by (induction a) simp_all

lemma norm2_squared: "(norm2 a) ^ 2 = sum_list (map (\<lambda>x. x ^ 2) a)"
  by (simp add: norm2_def sum_list_squares_nonneg)

lemma wcos_value_code [code]:
  "wcos_value curr_pt a b =
     (let a_curr = vsub a curr_pt; b_curr = vsub b curr_pt
      in dot a_curr b_curr / sum_list (map (\<lambda>x. x ^ 2) a_curr)
           / sum_list (map (\<lambda>x. x ^ 2) b_curr))"
  by (simp add: wcos_value_def Let_def norm2_squared)

text \<open>
  After the coincidence test the two divisors are positive, for rows of the pivot's
  length: the division of the reals agrees with the division the code performs, and no
  division by zero is hidden in the model.
\<close>

lemma sum_squares_vsub_positive:
  "length a = length p \<Longrightarrow> a \<noteq> p \<Longrightarrow> 0 < sum_list (map (\<lambda>x. x ^ 2) (vsub a p))"
proof (induction a p rule: list_induct2)
  case Nil
  then show ?case by simp
next
  case (Cons x xs y ys)
  have nn: "0 \<le> sum_list (map (\<lambda>x. x ^ 2) (vsub xs ys))" by (rule sum_list_squares_nonneg)
  show ?case
  proof (cases "x = y")
    case True
    with Cons.prems have "xs \<noteq> ys" by simp
    from Cons.IH [OF this] True show ?thesis by (simp add: vsub_def)
  next
    case False
    then have "0 < (x - y) ^ 2" by simp
    with nn show ?thesis by (simp add: vsub_def add_pos_nonneg)
  qed
qed

lemma wcos_divisors_positive:
  assumes "length a = length p" and "length b = length p"
    and "\<not> (array_equal a p \<or> array_equal b p)"
  shows "0 < (norm2 (vsub a p)) ^ 2 \<and> 0 < (norm2 (vsub b p)) ^ 2"
  using assms by (simp add: norm2_squared array_equal_def sum_squares_vsub_positive)

subsection \<open>The loop in closed form\<close>

lemma wocs_loop_in_range:
  "pairs_in_range X ps \<Longrightarrow> wocs_loop p X ps acc = Inr (acc @ collected p X ps)"
proof (induction ps arbitrary: acc)
  case Nil
  then show ?case by (simp add: collected_def)
next
  case (Cons ab ps)
  obtain a b where ab: "ab = (a, b)" by (cases ab)
  from Cons.prems have r: "a < length X" "b < length X" "pairs_in_range X ps"
    by (simp_all add: pairs_in_range_def ab)
  show ?case
    using r Cons.IH [OF r(3)]
    by (simp add: ab collected_def pair_skipped_def pair_wcos_def Let_def)
qed

lemma wocs_loop_out_of_range:
  "\<not> pairs_in_range X ps \<Longrightarrow> wocs_loop p X ps acc = Inl IndexError"
proof (induction ps arbitrary: acc)
  case Nil
  then show ?case by (simp add: pairs_in_range_def)
next
  case (Cons ab ps)
  obtain a b where ab: "ab = (a, b)" by (cases ab)
  show ?case
  proof (cases "a < length X \<and> b < length X")
    case True
    with Cons.prems have "\<not> pairs_in_range X ps" by (simp add: pairs_in_range_def ab)
    from Cons.IH [OF this] True show ?thesis by (simp add: ab Let_def)
  next
    case False
    then show ?thesis by (auto simp add: ab)
  qed
qed

lemma calculate_wocs_cases:
  "calculate_wocs p X C =
     (if pairs_in_range X (combinations2 C) then Inr (np_var (collected p X (combinations2 C)))
      else Inl IndexError)"
  by (simp add: calculate_wocs_def wocs_loop_in_range wocs_loop_out_of_range)

lemma set_combinations2_subset:
  "(a, b) \<in> set (combinations2 xs) \<Longrightarrow> a \<in> set xs \<and> b \<in> set xs"
  by (induction xs) auto

lemma combinations2_member:
  "x \<in> set xs \<Longrightarrow> 2 \<le> length xs \<Longrightarrow> \<exists>ab \<in> set (combinations2 xs). fst ab = x \<or> snd ab = x"
proof (induction xs)
  case Nil
  then show ?case by simp
next
  case (Cons y ys)
  from Cons.prems(2) obtain z zs where ys: "ys = z # zs" by (cases ys) auto
  show ?case
  proof (cases "x = y")
    case True
    then show ?thesis by (auto simp add: ys)
  next
    case False
    with Cons.prems have xin: "x \<in> set ys" by simp
    then have "(y, x) \<in> set (combinations2 (y # ys))" by simp
    then show ?thesis by force
  qed
qed

lemma pairs_in_range_combinations2:
  "pairs_in_range X (combinations2 C) \<longleftrightarrow> (length C < 2 \<or> (\<forall>i \<in> set C. i < length X))"
proof
  assume l: "pairs_in_range X (combinations2 C)"
  show "length C < 2 \<or> (\<forall>i \<in> set C. i < length X)"
  proof (cases "length C < 2")
    case True then show ?thesis by simp
  next
    case False
    have "i < length X" if "i \<in> set C" for i
    proof -
      from combinations2_member [OF that] False
      obtain ab where "ab \<in> set (combinations2 C)" "fst ab = i \<or> snd ab = i" by auto
      with l show ?thesis by (auto simp add: pairs_in_range_def list_all_iff)
    qed
    then show ?thesis by simp
  qed
next
  assume r: "length C < 2 \<or> (\<forall>i \<in> set C. i < length X)"
  show "pairs_in_range X (combinations2 C)"
  proof (cases "length C < 2")
    case True
    then have "combinations2 C = []" by (cases C) (auto simp: Suc_less_eq2 less_Suc_eq)
    then show ?thesis by (simp add: pairs_in_range_def)
  next
    case False
    with r have "\<forall>i \<in> set C. i < length X" by simp
    then show ?thesis
      by (auto simp add: pairs_in_range_def list_all_iff dest: set_combinations2_subset)
  qed
qed

subsection \<open>The variance depends on the values, not on their order\<close>










subsection \<open>The pairs that \<open>combinations\<close> enumerates\<close>








section \<open>The claims about the statistic\<close>

subsection \<open>The statistic refines its specification\<close>




lemmas wocs_eval = calculate_wocs_def array_equal_def wcos_value_def vsub_def dot_def norm2_def
  np_var_def np_mean_def




subsection \<open>The order of the candidates\<close>




subsection \<open>Degenerate candidate sets\<close>







section \<open>Properties of the detector\<close>

subsection \<open>The loops over the points\<close>

lemma fit_default_loop_assign:
  "fit_default_loop X n is scores = assign_loop (fit_default_step X n) is scores"
  by (induction "is" arbitrary: scores) (simp_all add: fit_default_step_def split: sum.splits)

lemma fit_fast_loop_assign:
  "fit_fast_loop X ind_arr is scores = assign_loop (fit_fast_step X ind_arr) is scores"
  by (induction "is" arbitrary: scores) (simp_all add: fit_fast_step_def split: sum.splits)

lemma score_loop_assign:
  "score_loop X Xt cand is scores =
     (case assign_loop (score_step X Xt cand) is scores of Ok r \<Rightarrow> Inr r | Err e r \<Rightarrow> Inl e)"
  by (induction "is" arbitrary: scores) (simp_all add: score_step_def split: sum.splits)

lemma assign_loop_Ok:
  "assign_loop f is scores = Ok r \<Longrightarrow>
   length r = length scores \<and> (\<forall>i \<in> set is. i < length scores \<and> f i = Inr (r ! i)) \<and>
   (\<forall>j. j \<notin> set is \<longrightarrow> r ! j = scores ! j)"
proof (induction "is" arbitrary: scores)
  case Nil
  then show ?case by simp
next
  case (Cons i rest)
  from Cons.prems obtain v where v: "f i = Inr v" and i: "i < length scores"
    and rec: "assign_loop f rest (scores[i := v]) = Ok r"
    by (auto split: sum.splits if_splits)
  from Cons.IH [OF rec] have len: "length r = length scores"
    and vals: "\<forall>k \<in> set rest. k < length scores \<and> f k = Inr (r ! k)"
    and keep: "\<forall>j. j \<notin> set rest \<longrightarrow> r ! j = scores[i := v] ! j"
    by simp_all
  have "f i = Inr (r ! i)"
  proof (cases "i \<in> set rest")
    case True
    with vals show ?thesis by simp
  next
    case False
    with keep i have "r ! i = v" by simp
    with v show ?thesis by simp
  qed
  with len vals keep i show ?case by auto
qed

lemma assign_loop_succeeds:
  "\<forall>i \<in> set is. i < length scores \<and> (\<exists>v. f i = Inr v) \<Longrightarrow> \<exists>r. assign_loop f is scores = Ok r"
proof (induction "is" arbitrary: scores)
  case Nil
  then show ?case by simp
next
  case (Cons i rest)
  then obtain v where v: "f i = Inr v" and i: "i < length scores" by auto
  from Cons.prems have "\<forall>k \<in> set rest. k < length (scores[i := v]) \<and> (\<exists>v. f k = Inr v)" by simp
  from Cons.IH [OF this] v i show ?case by simp
qed

subsection \<open>\<open>fit\<close> step by step\<close>

lemma fit_dispatch:
  "check_array X0 = Inr X \<Longrightarrow>
   fit env X0 s =
     (case (if method s = ''fast'' then fit_fast env (fit_start X s)
            else if method s = ''default'' then fit_default (fit_start X s)
            else Err (ValueError (method s @ '' is not a valid method'')) (fit_start X s)) of
        Err e s5 \<Rightarrow> Err e s5
      | Ok s5 \<Rightarrow> Ok (process_decision_scores env (flip_scores s5)))"
  by (simp add: fit_def fit_start_def set_n_classes_def)

lemma fit_rejected: "check_array X0 = Inl e \<Longrightarrow> fit env X0 s = Err e s"
  by (simp add: fit_def)

lemma fit_fast_start:
  "fit_fast env (fit_start X s) =
     (case check_parameter (n_neighbors s) 1 (int (length X)) of
        Inl e \<Rightarrow> Err e (fit_start X s)
      | Inr u \<Rightarrow>
          (case kneighbors env X (n_neighbors s) of
             Inl e \<Rightarrow> Err e ((fit_start X s)\<lparr>tree := Some X\<rparr>)
           | Inr ind_arr \<Rightarrow>
               (case assign_loop (fit_fast_step X ind_arr) [0..<length X]
                       (replicate (length X) (Val 0)) of
                  Ok r \<Rightarrow> Ok ((fit_start X s)\<lparr>tree := Some X, decision_scores := Some r\<rparr>)
                | Err e r \<Rightarrow> Err e ((fit_start X s)\<lparr>tree := Some X, decision_scores := Some r\<rparr>))))"
  by (simp add: fit_fast_def fit_start_def fit_fast_loop_assign Let_def split: sum.splits res.splits)

lemma fit_default_start:
  "fit_default (fit_start X s) =
     (case assign_loop (fit_default_step X (length X)) [0..<length X]
             (replicate (length X) (Val 0)) of
        Ok r \<Rightarrow> Ok ((fit_start X s)\<lparr>decision_scores := Some r\<rparr>)
      | Err e r \<Rightarrow> Err e ((fit_start X s)\<lparr>decision_scores := Some r\<rparr>))"
  by (simp add: fit_default_def fit_start_def fit_default_loop_assign split: res.splits)

lemma finish_scores:
  "decision_scores s5 = Some r \<Longrightarrow>
   decision_scores (process_decision_scores env (flip_scores s5)) = Some (negate r)"
  by (simp add: process_decision_scores_def flip_scores_def negate_def split: prod.splits)

lemma finish_fitted:
  "decision_scores s5 = Some r \<Longrightarrow>
   threshold (process_decision_scores env (flip_scores s5)) \<noteq> None \<and>
   labels (process_decision_scores env (flip_scores s5)) \<noteq> None"
  by (simp add: process_decision_scores_def flip_scores_def split: prod.splits)


section \<open>The claims about the detector\<close>

subsection \<open>An unrecognised method\<close>

text \<open>
  Claim C2, as amended. For every training matrix that input validation accepts, \<open>fit\<close>
  with a method string that is neither \<open>fast\<close> nor \<open>default\<close> fails with the
  invalid-configuration \<open>ValueError\<close>; by then it has assigned the class count, the training
  matrix, its size and an all-zero score array, and it has assigned neither \<open>threshold_\<close>
  nor \<open>labels_\<close> nor \<open>tree_\<close>, which are as before the call.
\<close>

theorem fit_invalid_method:
  assumes "method s \<noteq> ''fast''" and "method s \<noteq> ''default''" and "check_array X0 = Inr X"
  shows "fit env X0 s =
           Err (ValueError (method s @ '' is not a valid method''))
             (s\<lparr>classes := Some 2, X_train := Some X, n_train := Some (length X),
                decision_scores := Some (replicate (length X) (Val 0))\<rparr>)"
  using assms by (simp add: fit_dispatch fit_start_def)

lemmas fit_eval = fit_def check_array_def set_n_classes_def abod_init_def

text \<open>The theorem of claim C2 on two points and the method string \<open>bogus\<close>.\<close>

theorem fit_invalid_method_witness:
  "fit brute_force [[0], [1]] (abod_init (1 / 10) 5 ''bogus'') =
     Err (ValueError ''bogus is not a valid method'')
       \<lparr>contamination = 1 / 10, n_neighbors = 5, method = ''bogus'', classes = Some 2,
        X_train = Some [[0], [1]], n_train = Some 2, decision_scores = Some [Val 0, Val 0],
        threshold = None, labels = None, tree = None\<rparr>"
proof -
  have m: "method (abod_init (1 / 10) 5 ''bogus'') \<noteq> ''fast''"
    "method (abod_init (1 / 10) 5 ''bogus'') \<noteq> ''default''"
    by (simp_all add: abod_init_def)
  have c: "check_array [[0], [1]] = Inr [[0], [1]]" by (simp add: check_array_def)
  from fit_invalid_method [OF m c, of brute_force] show ?thesis
    by (simp add: abod_init_def numeral_2_eq_2)
qed

text \<open>
  Claim C2 as stated, no state mutated, fails: the check of the method comes after the
  assignments, so the failed call leaves a changed object.
\<close>

theorem fit_invalid_method_counterexample:
  "fit brute_force [[0], [1]] (abod_init (1 / 10) 5 ''bogus'') =
     Err (ValueError ''bogus is not a valid method'')
       ((abod_init (1 / 10) 5 ''bogus'')
          \<lparr>classes := Some 2, X_train := Some [[0], [1]], n_train := Some 2,
           decision_scores := Some [Val 0, Val 0]\<rparr>) \<and>
   (abod_init (1 / 10) 5 ''bogus'')
      \<lparr>classes := Some 2, X_train := Some [[0], [1]], n_train := Some 2,
       decision_scores := Some [Val 0, Val 0]\<rparr> \<noteq> abod_init (1 / 10) 5 ''bogus''"
  by (simp add: fit_eval numeral_2_eq_2)

lemma fit_failure_keeps:
  assumes "fit env X0 s = Err e s'"
  shows "threshold s' = threshold s \<and> labels s' = labels s"
proof (cases "check_array X0")
  case (Inl e')
  with assms show ?thesis by (simp add: fit_rejected)
next
  case (Inr X)
  from assms show ?thesis
    unfolding fit_dispatch [OF Inr] fit_fast_start fit_default_start
    by (auto simp add: fit_start_def split: if_splits sum.splits res.splits)
qed

lemma has_attr_init: "has_attr (abod_init c k m) a = False"
  by (simp add: has_attr_def abod_init_def)

subsection \<open>Scoring before fitting\<close>

text \<open>
  Claim C8. \<open>decision_function\<close> fails with a not-fitted error naming the missing
  attributes whenever one of \<open>X_train_\<close>, \<open>n_train_\<close>, \<open>decision_scores_\<close>, \<open>threshold_\<close>,
  \<open>labels_\<close> is missing, and returns scores only when all five are present. A detector
  fresh from \<open>__init__\<close> misses all five, and a detector whose only \<open>fit\<close> failed still
  misses some. (The error's payload follows the specification; the check itself is
  scikit-learn's.)
\<close>

theorem decision_function_not_fitted:
  "(list_ex (\<lambda>a. \<not> has_attr s a)
      [''X_train_'', ''n_train_'', ''decision_scores_'', ''threshold_'', ''labels_''] \<longrightarrow>
    decision_function env s X0 =
      (Inl (NotFittedError (filter (\<lambda>a. \<not> has_attr s a)
         [''X_train_'', ''n_train_'', ''decision_scores_'', ''threshold_'', ''labels_''])), s)) \<and>
   (fst (decision_function env s X0) = Inr r \<longrightarrow>
      X_train s \<noteq> None \<and> n_train s \<noteq> None \<and> decision_scores s \<noteq> None \<and>
      threshold s \<noteq> None \<and> labels s \<noteq> None) \<and>
   fst (decision_function env (abod_init c k m) X0) =
     Inl (NotFittedError
       [''X_train_'', ''n_train_'', ''decision_scores_'', ''threshold_'', ''labels_'']) \<and>
   (fit env X1 (abod_init c k m) = Err e s' \<longrightarrow>
      (\<exists>missing. missing \<noteq> [] \<and> fst (decision_function env s' X0) = Inl (NotFittedError missing)))"
proof -
  let ?req = "[''X_train_'', ''n_train_'', ''decision_scores_'', ''threshold_'', ''labels_'']"
  have named: "decision_function env t X0 =
      (Inl (NotFittedError (filter (\<lambda>a. \<not> has_attr t a) ?req)), t)"
    if "filter (\<lambda>a. \<not> has_attr t a) ?req \<noteq> []" for t
    using that by (simp add: decision_function_def check_is_fitted_def Let_def)
  have 1: "decision_function env s X0 =
      (Inl (NotFittedError (filter (\<lambda>a. \<not> has_attr s a) ?req)), s)"
    if "list_ex (\<lambda>a. \<not> has_attr s a) ?req"
  proof -
    from that have "filter (\<lambda>a. \<not> has_attr s a) ?req \<noteq> []"
      by (simp only: filter_empty_conv list_ex_iff) blast
    then show ?thesis by (rule named)
  qed
  have 2: "X_train s \<noteq> None \<and> n_train s \<noteq> None \<and> decision_scores s \<noteq> None \<and>
      threshold s \<noteq> None \<and> labels s \<noteq> None"
    if "fst (decision_function env s X0) = Inr r"
  proof -
    from that have "check_is_fitted s ?req = Inr ()"
      by (cases "check_is_fitted s ?req") (simp_all add: decision_function_def)
    then show ?thesis
      by (simp add: check_is_fitted_def has_attr_def Let_def split: if_splits)
  qed
  have 3: "fst (decision_function env (abod_init c k m) X0) = Inl (NotFittedError ?req)"
    by (simp add: decision_function_def check_is_fitted_def has_attr_init)
  have 4: "\<exists>missing. missing \<noteq> [] \<and>
      fst (decision_function env s' X0) = Inl (NotFittedError missing)"
    if "fit env X1 (abod_init c k m) = Err e s'"
  proof -
    from fit_failure_keeps [OF that] have "threshold s' = None" by (simp add: abod_init_def)
    then have "\<not> has_attr s' ''threshold_''" by (simp add: has_attr_def)
    then have ne: "filter (\<lambda>a. \<not> has_attr s' a) ?req \<noteq> []"
      by (simp only: filter_empty_conv) simp
    from named [OF ne] ne show ?thesis by auto
  qed
  from 1 2 3 4 show ?thesis by blast
qed

text \<open>
  The theorem of claim C8 on the object that a \<open>fit\<close> with the method string \<open>bogus\<close> on two
  points leaves behind: the training matrix and the scores are there, the threshold and
  the labels are named as missing.
\<close>

theorem decision_function_not_fitted_witness:
  "list_ex (\<lambda>a. \<not> has_attr
       \<lparr>contamination = 1 / 10, n_neighbors = 5, method = ''bogus'', classes = Some 2,
        X_train = Some [[0], [1]], n_train = Some 2, decision_scores = Some [Val 0, Val 0],
        threshold = None, labels = None, tree = None\<rparr> a)
     [''X_train_'', ''n_train_'', ''decision_scores_'', ''threshold_'', ''labels_''] \<and>
   fst (decision_function brute_force
       \<lparr>contamination = 1 / 10, n_neighbors = 5, method = ''bogus'', classes = Some 2,
        X_train = Some [[0], [1]], n_train = Some 2, decision_scores = Some [Val 0, Val 0],
        threshold = None, labels = None, tree = None\<rparr> [[2]]) =
     Inl (NotFittedError [''threshold_'', ''labels_''])"
proof -
  let ?s = "\<lparr>contamination = 1 / 10, n_neighbors = 5, method = ''bogus'', classes = Some 2,
        X_train = Some [[0], [1]], n_train = Some 2, decision_scores = Some [Val 0, Val 0],
        threshold = None, labels = None, tree = None\<rparr>"
  have h: "list_ex (\<lambda>a. \<not> has_attr ?s a)
     [''X_train_'', ''n_train_'', ''decision_scores_'', ''threshold_'', ''labels_'']"
    by (simp add: has_attr_def)
  from decision_function_not_fitted [of ?s brute_force "[[2]]"] h
  have "decision_function brute_force ?s [[2]] =
      (Inl (NotFittedError (filter (\<lambda>a. \<not> has_attr ?s a)
         [''X_train_'', ''n_train_'', ''decision_scores_'', ''threshold_'', ''labels_''])), ?s)"
    by blast
  then have "fst (decision_function brute_force ?s [[2]]) =
     Inl (NotFittedError [''threshold_'', ''labels_''])"
    by (simp add: has_attr_def)
  with h show ?thesis by simp
qed

subsection \<open>Runs on concrete data\<close>

lemmas run_eval = fit_def check_array_def set_n_classes_def abod_init_def fit_default_def fit_fast_def
  fit_default_candidates_def score_default_candidates_def flip_scores_def process_decision_scores_def
  brute_force_def brute_query_def sq_dist_def check_parameter_def decision_function_def
  decision_function_default_def decision_function_fast_def check_is_fitted_def has_attr_def
  wocs_eval Let_def upt_rec power2_eq_square example_X_def

lemma fit_default_example:
  "fit brute_force example_X (abod_init (1 / 10) 3 ''default'') = Ok fitted_default_example"
  by (simp add: run_eval fitted_default_example_def)

lemma fit_fast_example:
  "fit brute_force example_X (abod_init (1 / 10) 3 ''fast'') = Ok fitted_fast_example"
  by (simp add: run_eval fitted_fast_example_def)

lemma score_default_example:
  "decision_function brute_force fitted_default_example [[0], [2]] =
     (Inr [Val (- (8 / 567)), Val (- (833 / 3600))], fitted_default_example)"
  by (simp add: run_eval fitted_default_example_def)

lemma score_fast_example:
  "decision_function brute_force fitted_fast_example [[0], [2]] =
     (Inr [Val 0, Val (- (7 / 18))], fitted_fast_example)"
  by (simp add: run_eval fitted_fast_example_def)

subsection \<open>Scoring twice\<close>

text \<open>
  Claim C9. For every detector, fitted ones included, and every query matrix,
  \<open>decision_function\<close> leaves the object as it was, and a second call with the same query
  matrix returns what the first returned.
\<close>

theorem decision_function_idempotent:
  "snd (decision_function env s X0) = s \<and>
   decision_function env (snd (decision_function env s X0)) X0 = decision_function env s X0"
proof -
  have "snd (decision_function env s X0) = s"
    by (simp add: decision_function_def split: sum.splits)
  then show ?thesis by simp
qed

text \<open>The theorem of claim C9 on the detector fitted in default mode, scored at \<open>0\<close> and \<open>2\<close>.\<close>

theorem decision_function_idempotent_witness:
  "fit brute_force example_X (abod_init (1 / 10) 3 ''default'') = Ok fitted_default_example \<and>
   decision_function brute_force fitted_default_example [[0], [2]] =
     (Inr [Val (- (8 / 567)), Val (- (833 / 3600))], fitted_default_example) \<and>
   decision_function brute_force
     (snd (decision_function brute_force fitted_default_example [[0], [2]])) [[0], [2]] =
     (Inr [Val (- (8 / 567)), Val (- (833 / 3600))], fitted_default_example)"
  using decision_function_idempotent [of brute_force fitted_default_example "[[0], [2]]"]
    fit_default_example score_default_example
  by simp




subsection \<open>The neighbor count in fast mode\<close>





subsection \<open>Degenerate candidate sets do not raise\<close>








lemma fit_fast_Ok:
  assumes "method s = ''fast''" and "check_array X0 = Inr X" and "fit env X0 s = Ok s'"
  shows "\<exists>ind_arr r. kneighbors env X (n_neighbors s) = Inr ind_arr \<and>
      assign_loop (fit_fast_step X ind_arr) [0..<length X] (replicate (length X) (Val 0)) = Ok r \<and>
      s' = process_decision_scores env
             (flip_scores ((fit_start X s)\<lparr>tree := Some X, decision_scores := Some r\<rparr>))"
  using assms(3) unfolding fit_dispatch [OF assms(2)] fit_fast_start
  by (auto simp add: assms(1) split: sum.splits res.splits)



subsection \<open>The candidates of fast mode at fit time\<close>



lemma set_fit_default_candidates:
  "set (fit_default_candidates n i) = {0..<n} - {i}"
  by (simp add: fit_default_candidates_def)


lemma fit_default_step_eq:
  "i < length X \<Longrightarrow>
   fit_default_step X (length X) i =
     calculate_wocs (X ! i) X (fit_default_candidates (length X) i)"
  by (simp add: fit_default_step_def)

lemma fit_default_step_Inr:
  assumes "i < length X"
  shows "\<exists>v. fit_default_step X (length X) i = Inr v"
proof -
  have "\<forall>j \<in> set (fit_default_candidates (length X) i). j < length X"
    by (simp add: set_fit_default_candidates)
  with assms show ?thesis
    by (simp add: fit_default_step_def calculate_wocs_cases pairs_in_range_combinations2)
qed

lemma fit_default_succeeds:
  assumes "method s = ''default''" and "check_array X0 = Inr X"
  shows "\<exists>r. assign_loop (fit_default_step X (length X)) [0..<length X]
                (replicate (length X) (Val 0)) = Ok r \<and>
             fit env X0 s = Ok (process_decision_scores env
                (flip_scores ((fit_start X s)\<lparr>decision_scores := Some r\<rparr>)))"
proof -
  have "\<forall>i \<in> set [0..<length X]. i < length (replicate (length X) (Val 0)) \<and>
      (\<exists>v. fit_default_step X (length X) i = Inr v)"
  proof
    fix i assume "i \<in> set [0..<length X]"
    then have i: "i < length X" by simp
    from fit_default_step_Inr [OF i] i
    show "i < length (replicate (length X) (Val 0)) \<and>
      (\<exists>v. fit_default_step X (length X) i = Inr v)" by simp
  qed
  from assign_loop_succeeds [OF this] obtain r
    where r: "assign_loop (fit_default_step X (length X)) [0..<length X]
      (replicate (length X) (Val 0)) = Ok r" ..
  with assms show ?thesis
    by (simp add: fit_dispatch fit_default_start)
qed





subsection \<open>The candidates of default mode\<close>



subsection \<open>What the two paths store and return\<close>

lemma score_loop_Inr:
  assumes "score_loop Q Xt cand [0..<length Q] (replicate (length Q) (Val 0)) = Inr raw"
  shows "length raw = length Q \<and>
         (\<forall>i < length Q. \<exists>C. cand i = Inr C \<and> calculate_wocs (Q ! i) Xt C = Inr (raw ! i))"
proof -
  from assms have a: "assign_loop (score_step Q Xt cand) [0..<length Q]
      (replicate (length Q) (Val 0)) = Ok raw"
    by (simp add: score_loop_assign split: res.splits)
  from assign_loop_Ok [OF a] have len: "length raw = length Q"
    and vals: "\<forall>i < length Q. score_step Q Xt cand i = Inr (raw ! i)"
    by simp_all
  have "\<exists>C. cand i = Inr C \<and> calculate_wocs (Q ! i) Xt C = Inr (raw ! i)" if i: "i < length Q" for i
  proof -
    from vals i have "score_step Q Xt cand i = Inr (raw ! i)" by simp
    with i show ?thesis by (cases "cand i") (simp_all add: score_step_def)
  qed
  with len show ?thesis by blast
qed

lemma decision_function_raw:
  assumes "decision_function_fast env s Q = Inr raw \<or> decision_function_default s Q = Inr raw"
  shows "\<exists>Xt. X_train s = Some Xt \<and> length raw = length Q \<and>
           (\<forall>i < length Q. \<exists>C. calculate_wocs (Q ! i) Xt C = Inr (raw ! i))"
  using assms
proof
  assume "decision_function_fast env s Q = Inr raw"
  then obtain T Xt ind_arr where xt: "X_train s = Some Xt"
    and l: "score_loop Q Xt (\<lambda>i. if i < length ind_arr then Inr (ind_arr ! i) else Inl IndexError)
              [0..<length Q] (replicate (length Q) (Val 0)) = Inr raw"
    by (auto simp add: decision_function_fast_def split: sum.splits option.splits)
  from score_loop_Inr [OF l] xt show ?thesis by blast
next
  assume "decision_function_default s Q = Inr raw"
  then obtain Xt n where xt: "X_train s = Some Xt"
    and l: "score_loop Q Xt (\<lambda>i. Inr (score_default_candidates n))
              [0..<length Q] (replicate (length Q) (Val 0)) = Inr raw"
    by (auto simp add: decision_function_default_def split: option.splits)
  from score_loop_Inr [OF l] xt show ?thesis by blast
qed

lemma fit_default_Ok:
  assumes "method s = ''default''" and "check_array X0 = Inr X" and "fit env X0 s = Ok s'"
  shows "\<exists>r. assign_loop (fit_default_step X (length X)) [0..<length X]
                (replicate (length X) (Val 0)) = Ok r \<and>
      s' = process_decision_scores env (flip_scores ((fit_start X s)\<lparr>decision_scores := Some r\<rparr>))"
  using fit_default_succeeds [OF assms(1,2), of env] assms(3) by auto

lemma fit_Ok_method:
  assumes "check_array X0 = Inr X" and "fit env X0 s = Ok s'"
  shows "method s = ''fast'' \<or> method s = ''default''"
  using assms(2) unfolding fit_dispatch [OF assms(1)] by (auto split: if_splits)

lemma decision_function_Inr:
  assumes "check_array X0 = Inr X" and "fst (decision_function env s X0) = Inr r"
  shows "\<exists>raw. (method s = ''fast'' \<and> decision_function_fast env s X = Inr raw \<or>
                 method s \<noteq> ''fast'' \<and> decision_function_default s X = Inr raw) \<and>
                r = negate raw"
  using assms(2)
  by (cases "check_is_fitted s
        [''X_train_'', ''n_train_'', ''decision_scores_'', ''threshold_'', ''labels_'']";
      cases "decision_function_fast env s X"; cases "decision_function_default s X")
     (auto simp add: decision_function_def assms(1) negate_def split: if_splits)

subsection \<open>The sign flip\<close>

text \<open>
  Claim C6. In both modes and on both paths the final scores are the raw statistics times
  \<open>-1\<close>. After a successful \<open>fit\<close>, \<open>decision_scores_\<close> is \<open>-1\<close> times the array that the
  loop of \<open>_fit_fast\<close> or of \<open>_fit_default\<close> stored, whose entry \<open>i\<close> is a value of
  \<open>_calculate_wocs\<close> at the pivot \<open>X[i]\<close>; and when \<open>decision_function\<close> returns, it returns
  \<open>-1\<close> times the array of \<open>_decision_function_fast\<close> or of \<open>_decision_function_default\<close>,
  whose entry \<open>i\<close> is a value of \<open>_calculate_wocs\<close> at the query point \<open>i\<close>.
\<close>

theorem scores_are_sign_flipped:
  assumes "check_array X0 = Inr X"
  shows
    "(fit env X0 s = Ok s' \<longrightarrow>
        (\<exists>raw.
           (method s = ''fast'' \<and>
              (\<exists>ind_arr. kneighbors env X (n_neighbors s) = Inr ind_arr \<and>
                 fit_fast_loop X ind_arr [0..<length X] (replicate (length X) (Val 0)) = Ok raw) \<or>
            method s = ''default'' \<and>
              fit_default_loop X (length X) [0..<length X] (replicate (length X) (Val 0)) = Ok raw) \<and>
           length raw = length X \<and>
           (\<forall>i < length X. \<exists>C. calculate_wocs (X ! i) X C = Inr (raw ! i)) \<and>
           decision_scores s' = Some (map (\<lambda>v. np_times v (- 1)) raw))) \<and>
     (fst (decision_function env s X0) = Inr r \<longrightarrow>
        (\<exists>raw Xt.
           (method s = ''fast'' \<and> decision_function_fast env s X = Inr raw \<or>
            method s \<noteq> ''fast'' \<and> decision_function_default s X = Inr raw) \<and>
           X_train s = Some Xt \<and> length raw = length X \<and>
           (\<forall>i < length X. \<exists>C. calculate_wocs (X ! i) Xt C = Inr (raw ! i)) \<and>
           r = map (\<lambda>v. np_times v (- 1)) raw))"
proof -
  have 1: "\<exists>raw.
           (method s = ''fast'' \<and>
              (\<exists>ind_arr. kneighbors env X (n_neighbors s) = Inr ind_arr \<and>
                 fit_fast_loop X ind_arr [0..<length X] (replicate (length X) (Val 0)) = Ok raw) \<or>
            method s = ''default'' \<and>
              fit_default_loop X (length X) [0..<length X] (replicate (length X) (Val 0)) = Ok raw) \<and>
           length raw = length X \<and>
           (\<forall>i < length X. \<exists>C. calculate_wocs (X ! i) X C = Inr (raw ! i)) \<and>
           decision_scores s' = Some (map (\<lambda>v. np_times v (- 1)) raw)"
    if f: "fit env X0 s = Ok s'"
  proof -
    from fit_Ok_method [OF assms f] show ?thesis
    proof
      assume m: "method s = ''fast''"
      from fit_fast_Ok [OF m assms f] obtain ind_arr raw
        where q: "kneighbors env X (n_neighbors s) = Inr ind_arr"
          and l: "assign_loop (fit_fast_step X ind_arr) [0..<length X]
                    (replicate (length X) (Val 0)) = Ok raw"
          and s': "s' = process_decision_scores env
                 (flip_scores ((fit_start X s)\<lparr>tree := Some X, decision_scores := Some raw\<rparr>))"
        by blast
      from assign_loop_Ok [OF l] have len: "length raw = length X"
        and vals: "\<forall>i < length X. fit_fast_step X ind_arr i = Inr (raw ! i)"
        by simp_all
      have w: "\<exists>C. calculate_wocs (X ! i) X C = Inr (raw ! i)" if i: "i < length X" for i
      proof -
        from vals i have "fit_fast_step X ind_arr i = Inr (raw ! i)" by simp
        with i have "calculate_wocs (X ! i) X (ind_arr ! i) = Inr (raw ! i)"
          by (auto simp add: fit_fast_step_def split: if_splits)
        then show ?thesis ..
      qed
      have sc: "decision_scores s' = Some (map (\<lambda>v. np_times v (- 1)) raw)"
        unfolding s' by (simp add: finish_scores negate_def)
      from l have "fit_fast_loop X ind_arr [0..<length X] (replicate (length X) (Val 0)) = Ok raw"
        by (simp add: fit_fast_loop_assign)
      with m q len w sc show ?thesis by blast
    next
      assume m: "method s = ''default''"
      from fit_default_Ok [OF m assms f] obtain raw
        where l: "assign_loop (fit_default_step X (length X)) [0..<length X]
                    (replicate (length X) (Val 0)) = Ok raw"
          and s': "s' = process_decision_scores env
                 (flip_scores ((fit_start X s)\<lparr>decision_scores := Some raw\<rparr>))"
        by blast
      from assign_loop_Ok [OF l] have len: "length raw = length X"
        and vals: "\<forall>i < length X. fit_default_step X (length X) i = Inr (raw ! i)"
        by simp_all
      have w: "\<exists>C. calculate_wocs (X ! i) X C = Inr (raw ! i)" if i: "i < length X" for i
      proof -
        from vals i fit_default_step_eq [OF i]
        have "calculate_wocs (X ! i) X (fit_default_candidates (length X) i) = Inr (raw ! i)"
          by simp
        then show ?thesis ..
      qed
      have sc: "decision_scores s' = Some (map (\<lambda>v. np_times v (- 1)) raw)"
        unfolding s' by (simp add: finish_scores negate_def)
      from l have "fit_default_loop X (length X) [0..<length X]
          (replicate (length X) (Val 0)) = Ok raw"
        by (simp add: fit_default_loop_assign)
      with m len w sc show ?thesis by blast
    qed
  qed
  have 2: "\<exists>raw Xt.
           (method s = ''fast'' \<and> decision_function_fast env s X = Inr raw \<or>
            method s \<noteq> ''fast'' \<and> decision_function_default s X = Inr raw) \<and>
           X_train s = Some Xt \<and> length raw = length X \<and>
           (\<forall>i < length X. \<exists>C. calculate_wocs (X ! i) Xt C = Inr (raw ! i)) \<and>
           r = map (\<lambda>v. np_times v (- 1)) raw"
    if d: "fst (decision_function env s X0) = Inr r"
  proof -
    from decision_function_Inr [OF assms d] obtain raw
      where b: "method s = ''fast'' \<and> decision_function_fast env s X = Inr raw \<or>
                 method s \<noteq> ''fast'' \<and> decision_function_default s X = Inr raw"
        and r: "r = negate raw"
      by blast
    from b have "decision_function_fast env s X = Inr raw \<or> decision_function_default s X = Inr raw"
      by blast
    from decision_function_raw [OF this] obtain Xt
      where "X_train s = Some Xt" "length raw = length X"
        "\<forall>i < length X. \<exists>C. calculate_wocs (X ! i) Xt C = Inr (raw ! i)"
      by blast
    with b r show ?thesis unfolding negate_def by blast
  qed
  from 1 2 show ?thesis by blast
qed

text \<open>
  The theorem of claim C6 on the four points: \<open>fit\<close> in default mode, and
  \<open>decision_function\<close> of the detector fitted in fast mode at \<open>0\<close> and \<open>2\<close>.
\<close>

theorem scores_are_sign_flipped_witness:
  "fit brute_force example_X (abod_init (1 / 10) 3 ''default'') = Ok fitted_default_example \<and>
   fit_default_loop example_X 4 [0, 1, 2, 3] [Val 0, Val 0, Val 0, Val 0] =
     Ok [Val (8 / 567), Val (37 / 648), Val (43 / 2592), Val (1 / 18144)] \<and>
   decision_scores fitted_default_example =
     Some (map (\<lambda>v. np_times v (- 1))
       [Val (8 / 567), Val (37 / 648), Val (43 / 2592), Val (1 / 18144)]) \<and>
   decision_function_fast brute_force fitted_fast_example [[0], [2]] = Inr [Val 0, Val (7 / 18)] \<and>
   fst (decision_function brute_force fitted_fast_example [[0], [2]]) =
     Inr (map (\<lambda>v. np_times v (- 1)) [Val 0, Val (7 / 18)])"
proof -
  have c: "check_array example_X = Inr example_X" by (simp add: check_array_def example_X_def)
  have cq: "check_array [[0], [2]] = Inr [[0], [2]]" by (simp add: check_array_def)
  have l: "length example_X = 4" by (simp add: example_X_def)
  have u: "[0..<4] = [0, 1, 2, 3]" by (simp add: upt_rec)
  have z: "replicate 4 (Val 0) = [Val 0, Val 0, Val 0, Val 0]" by (simp add: numeral_eq_Suc)
  have m: "method (abod_init (1 / 10) 3 ''default'') = ''default''" by (simp add: abod_init_def)
  have loop: "fit_default_loop example_X 4 [0, 1, 2, 3] [Val 0, Val 0, Val 0, Val 0] =
     Ok [Val (8 / 567), Val (37 / 648), Val (43 / 2592), Val (1 / 18144)]"
    by (simp add: run_eval)
  from scores_are_sign_flipped [OF c, where env = brute_force
      and s = "abod_init (1 / 10) 3 ''default''" and s' = fitted_default_example] fit_default_example
  obtain raw where "method (abod_init (1 / 10) 3 ''default'') = ''fast'' \<and>
              (\<exists>ind_arr. kneighbors brute_force example_X
                  (n_neighbors (abod_init (1 / 10) 3 ''default'')) = Inr ind_arr \<and>
                 fit_fast_loop example_X ind_arr [0..<length example_X]
                   (replicate (length example_X) (Val 0)) = Ok raw) \<or>
            method (abod_init (1 / 10) 3 ''default'') = ''default'' \<and>
              fit_default_loop example_X (length example_X) [0..<length example_X]
                (replicate (length example_X) (Val 0)) = Ok raw"
    and sc: "decision_scores fitted_default_example = Some (map (\<lambda>v. np_times v (- 1)) raw)"
    by blast
  with m have "fit_default_loop example_X (length example_X) [0..<length example_X]
                (replicate (length example_X) (Val 0)) = Ok raw"
    by simp
  then have "raw = [Val (8 / 567), Val (37 / 648), Val (43 / 2592), Val (1 / 18144)]"
    unfolding l u z loop by simp
  with sc have a: "decision_scores fitted_default_example =
     Some (map (\<lambda>v. np_times v (- 1))
       [Val (8 / 567), Val (37 / 648), Val (43 / 2592), Val (1 / 18144)])"
    by simp
  have df: "decision_function_fast brute_force fitted_fast_example [[0], [2]] =
      Inr [Val 0, Val (7 / 18)]"
    by (simp add: run_eval fitted_fast_example_def)
  have fm: "method fitted_fast_example = ''fast''" by (simp add: fitted_fast_example_def)
  from score_fast_example
  have "fst (decision_function brute_force fitted_fast_example [[0], [2]]) =
      Inr [Val 0, Val (- (7 / 18))]"
    by simp
  from scores_are_sign_flipped [OF cq, where env = brute_force and s = fitted_fast_example
      and r = "[Val 0, Val (- (7 / 18))]", THEN conjunct2, rule_format, OF this]
  obtain raw' where "method fitted_fast_example = ''fast'' \<and>
        decision_function_fast brute_force fitted_fast_example [[0], [2]] = Inr raw' \<or>
      method fitted_fast_example \<noteq> ''fast'' \<and>
        decision_function_default fitted_fast_example [[0], [2]] = Inr raw'"
    and r: "[Val 0, Val (- (7 / 18))] = map (\<lambda>v. np_times v (- 1)) raw'"
    by (elim exE conjE) (rule that, assumption+)
  with fm df have "raw' = [Val 0, Val (7 / 18)]" by simp
  with r score_fast_example
  have b: "fst (decision_function brute_force fitted_fast_example [[0], [2]]) =
     Inr (map (\<lambda>v. np_times v (- 1)) [Val 0, Val (7 / 18)])"
    by simp
  from fit_default_example loop a df b show ?thesis by blast
qed

end
